theory Spec2Isabelle
  imports Complex_Main "HOL-Library.Word"
begin

section \<open>Values shared by the packages\<close>

text \<open>
  Go's \<open>int\<close> is modelled at its width on the 64-bit platforms (amd64, arm64): a 64-bit
  two's complement word. Comparisons of \<open>int\<close> values are the signed ones (\<open><s\<close>),
  \<open>+\<close> and \<open>-\<close> wrap around.
\<close>

type_synonym goint = "64 word"

text \<open>
  A Go \<open>error\<close> value; \<open>None\<close> of \<open>error option\<close> is the nil error. The three sentinels
  of package addservice are values of their own: \<open>switch err\<close> and \<open>==\<close> compare errors by
  identity, so an error made elsewhere by \<open>errors.New\<close> is a different value even when it
  carries the same message (\<open>OtherError\<close>). \<open>ErrLimited\<close> is the sentinel of go-kit's
  package ratelimit, \<open>ErrOpenState\<close> and \<open>ErrTooManyRequests\<close> are those of gobreaker.
\<close>

datatype error =
    ErrTwoZeroes
  | ErrIntOverflow
  | ErrMaxSizeExceeded
  | ErrLimited
  | ErrOpenState
  | ErrTooManyRequests
  | OtherError string

text \<open>\<open>err.Error()\<close>: the message of an error value.\<close>

fun Error :: "error \<Rightarrow> string" where
  "Error ErrTwoZeroes = ''can't sum two zeroes''"
| "Error ErrIntOverflow = ''integer overflow''"
| "Error ErrMaxSizeExceeded = ''result exceeds maximum size''"
| "Error ErrLimited = ''rate limit exceeded''"
| "Error ErrOpenState = ''circuit breaker is open''"
| "Error ErrTooManyRequests = ''too many requests''"
| "Error (OtherError msg) = msg"

section \<open>Packages models and store\<close>

text \<open>
  \<open>models.ToDoItem\<close>. A \<open>primitive.ObjectID\<close> is an array of twelve bytes.
\<close>

type_synonym ObjectID = "8 word list"

record ToDoItem =
  ID :: ObjectID
  Task :: string
  Status :: bool

text \<open>
  Calls that reach outside the process (the document store, loggers, metrics) act on a
  world \<open>'w\<close> that is passed in and returned updated. The \<open>context.Context\<close> argument,
  which the functions below only hand on, is left out.

  \<open>store.Store\<close>, the persistence port: an interface value is the record of its methods.
\<close>

record 'w Store =
  Store_Ping :: "'w \<Rightarrow> error option \<times> 'w"
  Store_InsertToDo :: "ToDoItem \<Rightarrow> 'w \<Rightarrow> (string \<times> error option) \<times> 'w"
  Store_CompleteToDo :: "string \<Rightarrow> 'w \<Rightarrow> (string \<times> error option) \<times> 'w"
  Store_UnDoToDo :: "string \<Rightarrow> 'w \<Rightarrow> (string \<times> error option) \<times> 'w"
  Store_DeleteToDo :: "string \<Rightarrow> 'w \<Rightarrow> (string \<times> error option) \<times> 'w"
  Store_GetAllToDo :: "'w \<Rightarrow> (ToDoItem list \<times> error option) \<times> 'w"

section \<open>Package addservice: the basic service\<close>

text \<open>The interface \<open>Service\<close>.\<close>

record 'w Service =
  Sum :: "goint \<Rightarrow> goint \<Rightarrow> 'w \<Rightarrow> (goint \<times> error option) \<times> 'w"
  Concat :: "string \<Rightarrow> string \<Rightarrow> 'w \<Rightarrow> (string \<times> error option) \<times> 'w"
  Ping :: "'w \<Rightarrow> (string \<times> error option) \<times> 'w"
  AddToDo :: "ToDoItem \<Rightarrow> 'w \<Rightarrow> (string \<times> error option) \<times> 'w"
  CompleteToDo :: "string \<Rightarrow> 'w \<Rightarrow> (string \<times> error option) \<times> 'w"
  UnDoToDo :: "string \<Rightarrow> 'w \<Rightarrow> (string \<times> error option) \<times> 'w"
  DeleteToDo :: "string \<Rightarrow> 'w \<Rightarrow> (string \<times> error option) \<times> 'w"
  GetAllToDo :: "'w \<Rightarrow> (ToDoItem list \<times> error option) \<times> 'w"

definition intMax :: goint where
  "intMax = push_bit 31 1 - 1"

definition intMin :: goint where
  "intMin = - (intMax + 1)"

definition maxLen :: nat where
  "maxLen = 10"

text \<open>\<open>basicService.Sum\<close>; the pair is Go's \<open>(int, error)\<close>.\<close>

definition basicService_Sum :: "goint \<Rightarrow> goint \<Rightarrow> goint \<times> error option" where
  "basicService_Sum a b =
     (if a = 0 \<and> b = 0 then (0, Some ErrTwoZeroes)
      else if (0 <s b \<and> intMax - b <s a) \<or> (b <s 0 \<and> a <s intMin - b)
        then (0, Some ErrIntOverflow)
      else (a + b, None))"

text \<open>\<open>basicService.Concat\<close>; \<open>len\<close> of a Go string counts its bytes.\<close>

definition basicService_Concat :: "string \<Rightarrow> string \<Rightarrow> string \<times> error option" where
  "basicService_Concat a b =
     (if length a + length b > maxLen then ('''', Some ErrMaxSizeExceeded)
      else (a @ b, None))"

text \<open>\<open>basicService.Ping\<close> probes the store and turns its answer into a string.\<close>

definition basicService_Ping :: "'w Store \<Rightarrow> 'w \<Rightarrow> (string \<times> error option) \<times> 'w" where
  "basicService_Ping dbStore w =
     (let (err, w) = Store_Ping dbStore w
      in if err \<noteq> None then ((''down'', None), w)
         else ((''up'', None), w))"

definition basicService_AddToDo ::
  "'w Store \<Rightarrow> ToDoItem \<Rightarrow> 'w \<Rightarrow> (string \<times> error option) \<times> 'w" where
  "basicService_AddToDo dbStore task w =
     (let ((insertResult, err), w) = Store_InsertToDo dbStore task w
      in if err \<noteq> None then (('''', err), w)
         else ((insertResult, None), w))"

definition basicService_CompleteToDo ::
  "'w Store \<Rightarrow> string \<Rightarrow> 'w \<Rightarrow> (string \<times> error option) \<times> 'w" where
  "basicService_CompleteToDo dbStore taskID w =
     (let ((resultID, err), w) = Store_CompleteToDo dbStore taskID w
      in if err \<noteq> None then (('''', err), w)
         else ((resultID, None), w))"

definition basicService_UnDoToDo ::
  "'w Store \<Rightarrow> string \<Rightarrow> 'w \<Rightarrow> (string \<times> error option) \<times> 'w" where
  "basicService_UnDoToDo dbStore taskID w =
     (let ((resultID, err), w) = Store_UnDoToDo dbStore taskID w
      in if err \<noteq> None then (('''', err), w)
         else ((resultID, None), w))"

definition basicService_DeleteToDo ::
  "'w Store \<Rightarrow> string \<Rightarrow> 'w \<Rightarrow> (string \<times> error option) \<times> 'w" where
  "basicService_DeleteToDo dbStore taskID w =
     (let ((resultID, err), w) = Store_DeleteToDo dbStore taskID w
      in if err \<noteq> None then (('''', err), w)
         else ((resultID, None), w))"

definition basicService_GetAllToDo ::
  "'w Store \<Rightarrow> 'w \<Rightarrow> (ToDoItem list \<times> error option) \<times> 'w" where
  "basicService_GetAllToDo dbStore w =
     (let ((results, err), w) = Store_GetAllToDo dbStore w
      in if err \<noteq> None then (([], err), w)
         else ((results, None), w))"

text \<open>
  The value \<open>basicService{dbStore: dbStore}\<close> as a \<open>Service\<close>. \<open>Sum\<close> and \<open>Concat\<close>
  touch nothing outside their arguments.
\<close>

definition basicService :: "'w Store \<Rightarrow> 'w Service" where
  "basicService dbStore =
     \<lparr> Sum = (\<lambda>a b w. (basicService_Sum a b, w)),
       Concat = (\<lambda>a b w. (basicService_Concat a b, w)),
       Ping = basicService_Ping dbStore,
       AddToDo = basicService_AddToDo dbStore,
       CompleteToDo = basicService_CompleteToDo dbStore,
       UnDoToDo = basicService_UnDoToDo dbStore,
       DeleteToDo = basicService_DeleteToDo dbStore,
       GetAllToDo = basicService_GetAllToDo dbStore \<rparr>"

section \<open>Package addservice: the service middlewares\<close>

text \<open>A value handed to \<open>logger.Log\<close> among its \<open>keyvals\<close>.\<close>

datatype keyval =
    KString string
  | KInt goint
  | KError "error option"
  | KToDoItem ToDoItem
  | KToDoItems "ToDoItem list"

text \<open>
  \<open>log.Logger\<close>: \<open>Log(keyvals...)\<close> acts on the world; the error it returns is dropped
  by every caller below.
\<close>

type_synonym 'w Logger = "keyval list \<Rightarrow> 'w \<Rightarrow> 'w"

text \<open>
  The methods of \<open>loggingMiddleware\<close>. The deferred function runs after the results
  \<open>v\<close> and \<open>err\<close> have been set from the call of \<open>next\<close>.
\<close>

definition loggingMiddleware :: "'w Logger \<Rightarrow> 'w Service \<Rightarrow> 'w Service" where
  "loggingMiddleware logger next =
     \<lparr> Sum = (\<lambda>a b w.
         let ((v, err), w) = Sum next a b w
         in ((v, err), logger [KString ''method'', KString ''Sum'', KString ''a'', KInt a,
               KString ''b'', KInt b, KString ''v'', KInt v, KString ''err'', KError err] w)),
       Concat = (\<lambda>a b w.
         let ((v, err), w) = Concat next a b w
         in ((v, err), logger [KString ''method'', KString ''Concat'', KString ''a'', KString a,
               KString ''b'', KString b, KString ''v'', KString v, KString ''err'', KError err] w)),
       Ping = (\<lambda>w.
         let ((v, err), w) = Ping next w
         in ((v, err), logger [KString ''method'', KString ''Ping'', KString ''v'', KString v,
               KString ''err'', KError err] w)),
       AddToDo = (\<lambda>task w.
         let ((v, err), w) = AddToDo next task w
         in ((v, err), logger [KString ''method'', KString ''AddToDo'', KString ''task'',
               KToDoItem task, KString ''v'', KString v, KString ''err'', KError err] w)),
       CompleteToDo = (\<lambda>taskID w.
         let ((v, err), w) = CompleteToDo next taskID w
         in ((v, err), logger [KString ''method'', KString ''CompleteTod'', KString ''taskID'',
               KString taskID, KString ''v'', KString v, KString ''err'', KError err] w)),
       UnDoToDo = (\<lambda>taskID w.
         let ((v, err), w) = UnDoToDo next taskID w
         in ((v, err), logger [KString ''method'', KString ''UnDoTodo'', KString ''taskID'',
               KString taskID, KString ''v'', KString v, KString ''err'', KError err] w)),
       DeleteToDo = (\<lambda>taskID w.
         let ((v, err), w) = DeleteToDo next taskID w
         in ((v, err), logger [KString ''method'', KString ''DeleteToDo'', KString ''taskID'',
               KString taskID, KString ''v'', KString v, KString ''err'', KError err] w)),
       GetAllToDo = (\<lambda>w.
         let ((results, err), w) = GetAllToDo next w
         in ((results, err), logger [KString ''method'', KString ''GetAllToDo'',
               KString ''results'', KToDoItems results, KString ''err'', KError err] w)) \<rparr>"

text \<open>
  \<open>metrics.Counter\<close>: \<open>Add(delta)\<close> acts on the world. The model hands the counter the
  integer that the code converts with \<open>float64(...)\<close>.

  \<open>metrics.Histogram\<close>: \<open>With(lvs...).Observe(d)\<close> acts on the world; \<open>d\<close> is the
  elapsed time \<open>time.Since(begin)\<close> in nanoseconds, which the code converts with
  \<open>Seconds()\<close>. \<open>clock\<close> is \<open>time.Now()\<close>, read from the world.
\<close>

type_synonym 'w Counter = "int \<Rightarrow> 'w \<Rightarrow> 'w"
type_synonym 'w Histogram = "string list \<Rightarrow> int \<Rightarrow> 'w \<Rightarrow> 'w"

text \<open>\<open>fmt.Sprint\<close> of a \<open>bool\<close>.\<close>

definition Sprint_bool :: "bool \<Rightarrow> string" where
  "Sprint_bool b = (if b then ''true'' else ''false'')"

text \<open>
  The methods of \<open>instrumentingMiddleware\<close>. In the to-do methods \<open>time.Now()\<close> is
  evaluated when the \<open>defer\<close> statement is reached, before the call of \<open>next\<close>.
\<close>

definition instrumentingMiddleware ::
  "('w \<Rightarrow> int) \<Rightarrow> 'w Counter \<Rightarrow> 'w Counter \<Rightarrow> 'w Histogram \<Rightarrow> 'w Histogram
     \<Rightarrow> 'w Service \<Rightarrow> 'w Service" where
  "instrumentingMiddleware clock ints chars cubToDo getToDo next =
     \<lparr> Sum = (\<lambda>a b w.
         let ((v, err), w) = Sum next a b w
         in ((v, err), ints (sint v) w)),
       Concat = (\<lambda>a b w.
         let ((v, err), w) = Concat next a b w
         in ((v, err), chars (int (length v)) w)),
       Ping = (\<lambda>w.
         let ((v, err), w) = Ping next w
         in ((v, err), chars 1 w)),
       AddToDo = (\<lambda>task w.
         let begin = clock w;
             ((v, err), w) = AddToDo next task w;
             lvs = [''method'', ''AddToDo'', ''error'', Sprint_bool (err \<noteq> None)]
         in ((v, err), cubToDo lvs (clock w - begin) w)),
       CompleteToDo = (\<lambda>taskID w.
         let begin = clock w;
             ((v, err), w) = CompleteToDo next taskID w;
             lvs = [''method'', ''CompleteToDo'', ''error'', Sprint_bool (err \<noteq> None)]
         in ((v, err), cubToDo lvs (clock w - begin) w)),
       UnDoToDo = (\<lambda>taskID w.
         let begin = clock w;
             ((v, err), w) = UnDoToDo next taskID w;
             lvs = [''method'', ''UnDoToDo'', ''error'', Sprint_bool (err \<noteq> None)]
         in ((v, err), cubToDo lvs (clock w - begin) w)),
       DeleteToDo = (\<lambda>taskID w.
         let begin = clock w;
             ((v, err), w) = DeleteToDo next taskID w;
             lvs = [''method'', ''DeleteToDo'', ''error'', Sprint_bool (err \<noteq> None)]
         in ((v, err), cubToDo lvs (clock w - begin) w)),
       GetAllToDo = (\<lambda>w.
         let begin = clock w;
             ((results, err), w) = GetAllToDo next w;
             lvs = [''method'', ''DeleteToDo'', ''error'', Sprint_bool (err \<noteq> None)]
         in ((results, err), getToDo lvs (clock w - begin) w)) \<rparr>"

section \<open>Package addendpoint: requests, responses and endpoints\<close>

text \<open>
  The request and response structs. An \<open>interface{}\<close> that carries a request is a value
  of \<open>request\<close>, its dynamic type is the constructor; \<open>AddToDoRequest\<close> is an alias of
  \<open>models.ToDoItem\<close>.
\<close>

datatype request =
    SumRequest goint goint
  | ConcatRequest string string
  | PingRequest
  | AddToDoRequest ToDoItem
  | CompleteToDoRequest string
  | UnDoToDoRequest string
  | DeleteToDoRequest string
  | GetAllToDoRequest

text \<open>
  An \<open>interface{}\<close> that carries a response is a value of \<open>response option\<close>: \<open>None\<close> is
  the nil interface, \<open>OtherValue\<close> stands for a value of any type that is not one of the
  eight response structs (and has no method \<open>Failed\<close>). The last field of each response
  struct is \<open>Err\<close>.
\<close>

datatype response =
    SumResponse goint "error option"
  | ConcatResponse string "error option"
  | PingResponse string "error option"
  | AddToDoResponse string "error option"
  | CompleteToDoResponse string "error option"
  | UnDoToDoResponse string "error option"
  | DeleteToDoResponse string "error option"
  | GetAllToDoResponse "ToDoItem list" "error option"
  | OtherValue string

text \<open>The methods \<open>Failed\<close> of the eight response structs.\<close>

fun Failed :: "response \<Rightarrow> error option" where
  "Failed (SumResponse v err) = err"
| "Failed (ConcatResponse v err) = err"
| "Failed (PingResponse v err) = err"
| "Failed (AddToDoResponse taskID err) = err"
| "Failed (CompleteToDoResponse taskID err) = err"
| "Failed (UnDoToDoResponse taskID err) = err"
| "Failed (DeleteToDoResponse taskID err) = err"
| "Failed (GetAllToDoResponse todos err) = err"

text \<open>
  The type assertion \<open>response.(endpoint.Failer)\<close>: the value as a \<open>Failer\<close> when its
  dynamic type has the method, \<open>None\<close> (\<open>ok\<close> false) otherwise.
\<close>

fun as_Failer :: "response option \<Rightarrow> response option" where
  "as_Failer None = None"
| "as_Failer (Some (OtherValue x)) = None"
| "as_Failer (Some r) = Some r"

text \<open>
  A call either returns or panics (a failed type assertion); the world is kept in both
  cases. \<open>endpoint.Endpoint\<close> is a function from a request to a response and an error.
\<close>

datatype 'a outcome = Panics | Returns 'a

type_synonym 'w Endpoint = "request \<Rightarrow> 'w \<Rightarrow> (response option \<times> error option) outcome \<times> 'w"

type_synonym 'w Middleware = "'w Endpoint \<Rightarrow> 'w Endpoint"

definition MakeSumEndpoint :: "'w Service \<Rightarrow> 'w Endpoint" where
  "MakeSumEndpoint s = (\<lambda>request w.
     case request of
       SumRequest A B \<Rightarrow>
         (let ((v, err), w) = Sum s A B w
          in (Returns (Some (SumResponse v err), None), w))
     | _ \<Rightarrow> (Panics, w))"

definition MakeConcatEndpoint :: "'w Service \<Rightarrow> 'w Endpoint" where
  "MakeConcatEndpoint s = (\<lambda>request w.
     case request of
       ConcatRequest A B \<Rightarrow>
         (let ((v, err), w) = Concat s A B w
          in (Returns (Some (ConcatResponse v err), None), w))
     | _ \<Rightarrow> (Panics, w))"

definition MakePingEndpoint :: "'w Service \<Rightarrow> 'w Endpoint" where
  "MakePingEndpoint s = (\<lambda>request w.
     let ((v, err), w) = Ping s w
     in (Returns (Some (ConcatResponse v err), None), w))"

definition MakeAddToDoEndpoint :: "'w Service \<Rightarrow> 'w Endpoint" where
  "MakeAddToDoEndpoint s = (\<lambda>request w.
     case request of
       AddToDoRequest req \<Rightarrow>
         (let ((v, err), w) = AddToDo s req w
          in (Returns (Some (AddToDoResponse v err), None), w))
     | _ \<Rightarrow> (Panics, w))"

definition MakeCompleteToDoEndpoint :: "'w Service \<Rightarrow> 'w Endpoint" where
  "MakeCompleteToDoEndpoint s = (\<lambda>request w.
     case request of
       CompleteToDoRequest TaskID \<Rightarrow>
         (let ((v, err), w) = CompleteToDo s TaskID w
          in (Returns (Some (CompleteToDoResponse v err), None), w))
     | _ \<Rightarrow> (Panics, w))"

definition MakeUnDoToDoEndpoint :: "'w Service \<Rightarrow> 'w Endpoint" where
  "MakeUnDoToDoEndpoint s = (\<lambda>request w.
     case request of
       UnDoToDoRequest TaskID \<Rightarrow>
         (let ((v, err), w) = UnDoToDo s TaskID w
          in (Returns (Some (UnDoToDoResponse v err), None), w))
     | _ \<Rightarrow> (Panics, w))"

definition MakeDeleteToDoEndpoint :: "'w Service \<Rightarrow> 'w Endpoint" where
  "MakeDeleteToDoEndpoint s = (\<lambda>request w.
     case request of
       DeleteToDoRequest TaskID \<Rightarrow>
         (let ((v, err), w) = DeleteToDo s TaskID w
          in (Returns (Some (DeleteToDoResponse v err), None), w))
     | _ \<Rightarrow> (Panics, w))"

definition MakeGetAllToDoEndpoint :: "'w Service \<Rightarrow> 'w Endpoint" where
  "MakeGetAllToDoEndpoint s = (\<lambda>request w.
     let ((v, err), w) = GetAllToDo s w
     in (Returns (Some (GetAllToDoResponse v err), None), w))"

text \<open>The struct \<open>Set\<close> and its methods, which make a \<open>Set\<close> usable as a service.\<close>

record 'w Set =
  SumEndpoint :: "'w Endpoint"
  ConcatEndpoint :: "'w Endpoint"
  PingEndpoint :: "'w Endpoint"
  AddToDoEndpoint :: "'w Endpoint"
  CompleteToDoEndPoint :: "'w Endpoint"
  UnDoToDoEndpoint :: "'w Endpoint"
  DeleteToDoEndpoint :: "'w Endpoint"
  GetAllToDoEndpoint :: "'w Endpoint"

definition Set_Sum :: "'w Set \<Rightarrow> goint \<Rightarrow> goint \<Rightarrow> 'w \<Rightarrow> (goint \<times> error option) outcome \<times> 'w" where
  "Set_Sum s a b w =
     (case SumEndpoint s (SumRequest a b) w of
        (Panics, w) \<Rightarrow> (Panics, w)
      | (Returns (resp, Some err), w) \<Rightarrow> (Returns (0, Some err), w)
      | (Returns (Some (SumResponse V Err), None), w) \<Rightarrow> (Returns (V, Err), w)
      | (Returns (_, None), w) \<Rightarrow> (Panics, w))"

definition Set_Concat :: "'w Set \<Rightarrow> string \<Rightarrow> string \<Rightarrow> 'w \<Rightarrow> (string \<times> error option) outcome \<times> 'w" where
  "Set_Concat s a b w =
     (case ConcatEndpoint s (ConcatRequest a b) w of
        (Panics, w) \<Rightarrow> (Panics, w)
      | (Returns (resp, Some err), w) \<Rightarrow> (Returns ('''', Some err), w)
      | (Returns (Some (ConcatResponse V Err), None), w) \<Rightarrow> (Returns (V, Err), w)
      | (Returns (_, None), w) \<Rightarrow> (Panics, w))"

definition Set_Ping :: "'w Set \<Rightarrow> 'w \<Rightarrow> (string \<times> error option) outcome \<times> 'w" where
  "Set_Ping s w =
     (case PingEndpoint s PingRequest w of
        (Panics, w) \<Rightarrow> (Panics, w)
      | (Returns (resp, Some err), w) \<Rightarrow> (Returns ('''', Some err), w)
      | (Returns (Some (PingResponse V Err), None), w) \<Rightarrow> (Returns (V, Err), w)
      | (Returns (_, None), w) \<Rightarrow> (Panics, w))"

definition Set_AddToDo :: "'w Set \<Rightarrow> ToDoItem \<Rightarrow> 'w \<Rightarrow> (string \<times> error option) outcome \<times> 'w" where
  "Set_AddToDo s task w =
     (case AddToDoEndpoint s (AddToDoRequest task) w of
        (Panics, w) \<Rightarrow> (Panics, w)
      | (Returns (resp, Some err), w) \<Rightarrow> (Returns ('''', Some err), w)
      | (Returns (Some (AddToDoResponse TaskID Err), None), w) \<Rightarrow> (Returns (TaskID, Err), w)
      | (Returns (_, None), w) \<Rightarrow> (Panics, w))"

definition Set_CompleteToDo :: "'w Set \<Rightarrow> string \<Rightarrow> 'w \<Rightarrow> (string \<times> error option) outcome \<times> 'w" where
  "Set_CompleteToDo s taskID w =
     (case CompleteToDoEndPoint s (CompleteToDoRequest taskID) w of
        (Panics, w) \<Rightarrow> (Panics, w)
      | (Returns (resp, Some err), w) \<Rightarrow> (Returns ('''', Some err), w)
      | (Returns (Some (CompleteToDoResponse TaskID Err), None), w) \<Rightarrow> (Returns (TaskID, Err), w)
      | (Returns (_, None), w) \<Rightarrow> (Panics, w))"

definition Set_UnDoToDo :: "'w Set \<Rightarrow> string \<Rightarrow> 'w \<Rightarrow> (string \<times> error option) outcome \<times> 'w" where
  "Set_UnDoToDo s taskID w =
     (case UnDoToDoEndpoint s (UnDoToDoRequest taskID) w of
        (Panics, w) \<Rightarrow> (Panics, w)
      | (Returns (resp, Some err), w) \<Rightarrow> (Returns ('''', Some err), w)
      | (Returns (Some (UnDoToDoResponse TaskID Err), None), w) \<Rightarrow> (Returns (TaskID, Err), w)
      | (Returns (_, None), w) \<Rightarrow> (Panics, w))"

definition Set_DeleteToDo :: "'w Set \<Rightarrow> string \<Rightarrow> 'w \<Rightarrow> (string \<times> error option) outcome \<times> 'w" where
  "Set_DeleteToDo s taskID w =
     (case DeleteToDoEndpoint s (DeleteToDoRequest taskID) w of
        (Panics, w) \<Rightarrow> (Panics, w)
      | (Returns (resp, Some err), w) \<Rightarrow> (Returns ('''', Some err), w)
      | (Returns (Some (DeleteToDoResponse TaskID Err), None), w) \<Rightarrow> (Returns (TaskID, Err), w)
      | (Returns (_, None), w) \<Rightarrow> (Panics, w))"

definition Set_GetAllToDo :: "'w Set \<Rightarrow> 'w \<Rightarrow> (ToDoItem list \<times> error option) outcome \<times> 'w" where
  "Set_GetAllToDo s w =
     (case GetAllToDoEndpoint s GetAllToDoRequest w of
        (Panics, w) \<Rightarrow> (Panics, w)
      | (Returns (resp, Some err), w) \<Rightarrow> (Returns ([], Some err), w)
      | (Returns (Some (GetAllToDoResponse Todos Err), None), w) \<Rightarrow> (Returns (Todos, Err), w)
      | (Returns (_, None), w) \<Rightarrow> (Panics, w))"

section \<open>Library middlewares used by the wiring\<close>

text \<open>
  \<open>log.With(logger, keyvals...)\<close> and \<open>Histogram.With(labelValues...)\<close> of go-kit: the
  returned logger or histogram puts the given values before those of each later call.
\<close>

definition log_With :: "'w Logger \<Rightarrow> keyval list \<Rightarrow> 'w Logger" where
  "log_With logger keyvals = (\<lambda>kvs. logger (keyvals @ kvs))"

definition Histogram_With :: "'w Histogram \<Rightarrow> string list \<Rightarrow> 'w Histogram" where
  "Histogram_With h labelValues = (\<lambda>lvs. h (labelValues @ lvs))"

text \<open>A \<open>time.Duration\<close> and a \<open>time.Time\<close> count nanoseconds.\<close>

definition Second :: int where
  "Second = 1000000000"

text \<open>
  Modelled from the spec: the state of a rate limiter of golang.org/x/time/rate, library
  code outside this repository. The spec describes token-bucket admission control,
  configured by a pair of rate and burst, whose state is a bucket of tokens (capacity,
  refill rate) that persists across requests. \<open>limit\<close> is the number of tokens gained
  per second, \<open>burst\<close> the capacity, \<open>tokens\<close> the content of the bucket and \<open>last\<close>
  the time of the last admitted call. Token counts are rational numbers here where the
  library computes with \<open>float64\<close>.
\<close>

record Limiter =
  limit :: rat
  burst :: int
  tokens :: rat
  last :: int

text \<open>
  Modelled from the spec: \<open>rate.Every(interval)\<close>, the rate of one event per
  \<open>interval\<close>, for a positive interval (library code outside this repository).
\<close>

definition Every :: "int \<Rightarrow> rat" where
  "Every interval = of_int Second / of_int interval"

text \<open>
  Modelled from the spec: the conversion \<open>rate.Limit(n)\<close> of a number of events per
  second (library code outside this repository).
\<close>

definition Limit :: "int \<Rightarrow> rat" where
  "Limit n = of_int n"

text \<open>
  The limiters that exist are part of the world, which also gives the time:
  a \<open>*rate.Limiter\<close> is an index into \<open>limiters\<close>, and \<open>nlimiters\<close> counts the limiters
  made so far. Functions that use none of this work on any world \<open>'w\<close>.
\<close>

record World =
  now :: int
  limiters :: "nat \<Rightarrow> Limiter"
  nlimiters :: nat

text \<open>
  Modelled from the spec: \<open>rate.NewLimiter(r, b)\<close> (library code outside this repository)
  makes a limiter of rate \<open>r\<close> and burst \<open>b\<close> whose bucket is full.
\<close>

definition NewLimiter :: "rat \<Rightarrow> int \<Rightarrow> 'x World_scheme \<Rightarrow> nat \<times> 'x World_scheme" where
  "NewLimiter r b w =
     (nlimiters w,
      w\<lparr> limiters := (limiters w)
            (nlimiters w := \<lparr> limit = r, burst = b, tokens = of_int b, last = 0 \<rparr>),
         nlimiters := Suc (nlimiters w) \<rparr>)"

text \<open>
  Modelled from the spec: \<open>Allow\<close> on the state of one limiter at time \<open>t\<close> (library
  code outside this repository). The tokens gained since the last admitted call are added up to
  the capacity; with a whole token in the bucket the call is admitted and pays for it,
  otherwise it is refused at once and no token is taken.
\<close>

definition Limiter_Allow :: "Limiter \<Rightarrow> int \<Rightarrow> bool \<times> Limiter" where
  "Limiter_Allow limiter t =
     (let last' = (if t < last limiter then t else last limiter);
          elapsed = t - last';
          tokens' = min (of_int (burst limiter))
                        (tokens limiter + of_int elapsed * limit limiter / of_int Second)
      in if 1 \<le> burst limiter \<and> 1 \<le> tokens'
         then (True, limiter\<lparr> last := t, tokens := tokens' - 1 \<rparr>)
         else (False, limiter\<lparr> last := last' \<rparr>))"

text \<open>
  Modelled from the spec: the method \<open>Allow\<close> of a \<open>*rate.Limiter\<close> (library code
  outside this repository) reads the time and updates the limiter in the world.
\<close>

definition Allow :: "nat \<Rightarrow> 'x World_scheme \<Rightarrow> bool \<times> 'x World_scheme" where
  "Allow l w =
     (let (ok, limiter) = Limiter_Allow (limiters w l) (now w)
      in (ok, w\<lparr> limiters := (limiters w)(l := limiter) \<rparr>))"

text \<open>
  Modelled from the spec: go-kit's \<open>ratelimit.NewErroringLimiter\<close> (library code
  outside this repository). On an empty bucket the endpoint fails at once with the rate-limit
  error and does not call the endpoint it wraps; it never blocks or waits.
\<close>

definition NewErroringLimiter :: "nat \<Rightarrow> 'x World_scheme Middleware" where
  "NewErroringLimiter l next = (\<lambda>request w.
     let (ok, w) = Allow l w
     in if \<not> ok then (Returns (None, Some ErrLimited), w)
        else next request w)"

text \<open>\<open>gobreaker.Settings\<close>, with the two fields that the wiring sets.\<close>

record Settings =
  Name :: string
  Timeout :: int

text \<open>\<open>url.URL\<close>, with the fields that \<open>copyURL\<close> keeps and the one it sets.\<close>

record URL =
  Scheme :: string
  Host :: string
  Path :: string

text \<open>
  The functions of package addtransport that \<open>NewHTTPClient\<close> hands to
  \<open>httptransport.NewClient\<close>, by name.
\<close>

datatype EncodeRequestFunc = encodeHTTPGenericRequest

datatype DecodeResponseFunc =
    decodeHTTPSumResponse
  | decodeHTTPConcatResponse
  | decodeHTTPPingResponse
  | decodeHTTPAddToDoResponse
  | decodeHTTPCompleteToDoResponse
  | decodeHTTPUnDoToDoResponse
  | decodeHTTPDeleteToDoResponse
  | decodeHTTPGetAllToDoResponse

text \<open>
  The client options: \<open>zipkin.HTTPClientTrace(zipkinTracer)\<close> and
  \<open>httptransport.ClientBefore(opentracing.ContextToHTTP(otTracer, logger))\<close>.
\<close>

datatype ClientOption = HTTPClientTrace | ClientBefore_ContextToHTTP

text \<open>
  The other middlewares and constructors come from libraries (go-kit, gobreaker,
  opentracing, zipkin, net/url) and from the file of package addendpoint that holds the
  endpoint middlewares, none of which is among the sources modelled here. The wiring
  functions take them as the fields of a record \<open>kit\<close>; the tracers \<open>otTracer\<close> and
  \<open>zipkinTracer\<close> are fixed inside the fields that use them. \<open>NewCircuitBreaker\<close> makes a breaker \<open>'b\<close> in the
  world, \<open>NewClient\<close> is \<open>httptransport.NewClient(...).Endpoint()\<close>.
\<close>

record ('w, 'b) GoKit =
  TraceServer :: "string \<Rightarrow> 'w Middleware"
  TraceClient :: "string \<Rightarrow> 'w Middleware"
  TraceEndpoint :: "string \<Rightarrow> 'w Middleware"
  NewCircuitBreaker :: "Settings \<Rightarrow> 'w \<Rightarrow> 'b \<times> 'w"
  Gobreaker :: "'b \<Rightarrow> 'w Middleware"
  addendpoint_LoggingMiddleware :: "'w Logger \<Rightarrow> 'w Middleware"
  addendpoint_InstrumentingMiddleware :: "'w Histogram \<Rightarrow> 'w Middleware"
  NewClient :: "string \<Rightarrow> URL \<Rightarrow> EncodeRequestFunc \<Rightarrow> DecodeResponseFunc
                  \<Rightarrow> ClientOption list \<Rightarrow> 'w Endpoint"
  url_Parse :: "string \<Rightarrow> error + URL"

section \<open>Package addendpoint: the server wiring\<close>

text \<open>
  \<open>New\<close> builds the endpoints of the server. \<open>zipkinTracer\<close> is the test
  \<open>zipkinTracer != nil\<close>. Each \<open>rate.NewLimiter\<close> and each
  \<open>gobreaker.NewCircuitBreaker\<close> makes a new object in the world.
\<close>

definition New ::
  "('x World_scheme, 'b) GoKit \<Rightarrow> 'x World_scheme Service \<Rightarrow> 'x World_scheme Logger
     \<Rightarrow> 'x World_scheme Histogram \<Rightarrow> bool \<Rightarrow> 'x World_scheme
     \<Rightarrow> 'x World_scheme Set \<times> 'x World_scheme" where
  "New kit svc logger duration zipkinTracer w =
     (let sumEndpoint = MakeSumEndpoint svc;
          (limiter, w) = NewLimiter (Every Second) 1 w;
          sumEndpoint = NewErroringLimiter limiter sumEndpoint;
          (cb, w) = NewCircuitBreaker kit \<lparr> Name = [], Timeout = 0 \<rparr> w;
          sumEndpoint = Gobreaker kit cb sumEndpoint;
          sumEndpoint = TraceServer kit ''Sum'' sumEndpoint;
          sumEndpoint = (if zipkinTracer then TraceEndpoint kit ''Sum'' sumEndpoint else sumEndpoint);
          sumEndpoint = addendpoint_LoggingMiddleware kit
                  (log_With logger [KString ''method'', KString ''Sum'']) sumEndpoint;
          sumEndpoint = addendpoint_InstrumentingMiddleware kit
                  (Histogram_With duration [''method'', ''Sum'']) sumEndpoint;

          concatEndpoint = MakeConcatEndpoint svc;
          (limiter, w) = NewLimiter (Limit 1) 100 w;
          concatEndpoint = NewErroringLimiter limiter concatEndpoint;
          (cb, w) = NewCircuitBreaker kit \<lparr> Name = [], Timeout = 0 \<rparr> w;
          concatEndpoint = Gobreaker kit cb concatEndpoint;
          concatEndpoint = TraceServer kit ''Concat'' concatEndpoint;
          concatEndpoint = (if zipkinTracer then TraceEndpoint kit ''Concat'' concatEndpoint else concatEndpoint);
          concatEndpoint = addendpoint_LoggingMiddleware kit
                  (log_With logger [KString ''method'', KString ''Concat'']) concatEndpoint;
          concatEndpoint = addendpoint_InstrumentingMiddleware kit
                  (Histogram_With duration [''method'', ''Concat'']) concatEndpoint;

          pingEndpoint = MakePingEndpoint svc;
          (limiter, w) = NewLimiter (Limit 1) 100 w;
          pingEndpoint = NewErroringLimiter limiter pingEndpoint;
          (cb, w) = NewCircuitBreaker kit \<lparr> Name = [], Timeout = 0 \<rparr> w;
          pingEndpoint = Gobreaker kit cb pingEndpoint;
          pingEndpoint = TraceServer kit ''Ping'' pingEndpoint;
          concatEndpoint = (if zipkinTracer then TraceEndpoint kit ''Ping'' pingEndpoint else concatEndpoint);
          pingEndpoint = addendpoint_LoggingMiddleware kit
                  (log_With logger [KString ''method'', KString ''Ping'']) pingEndpoint;
          pingEndpoint = addendpoint_InstrumentingMiddleware kit
                  (Histogram_With duration [''method'', ''Ping'']) pingEndpoint;

          addToDoEndpoint = MakeAddToDoEndpoint svc;
          (limiter, w) = NewLimiter (Limit 1) 100 w;
          addToDoEndpoint = NewErroringLimiter limiter addToDoEndpoint;
          (cb, w) = NewCircuitBreaker kit \<lparr> Name = [], Timeout = 0 \<rparr> w;
          addToDoEndpoint = Gobreaker kit cb addToDoEndpoint;
          addToDoEndpoint = TraceServer kit ''AddToDo'' addToDoEndpoint;
          addToDoEndpoint = (if zipkinTracer then TraceEndpoint kit ''AddToDo'' addToDoEndpoint else addToDoEndpoint);
          addToDoEndpoint = addendpoint_LoggingMiddleware kit
                  (log_With logger [KString ''method'', KString ''AddToDo'']) addToDoEndpoint;
          addToDoEndpoint = addendpoint_InstrumentingMiddleware kit
                  (Histogram_With duration [''method'', ''AddToDo'']) addToDoEndpoint;

          completeToDoEndpoint = MakeCompleteToDoEndpoint svc;
          (limiter, w) = NewLimiter (Limit 1) 100 w;
          completeToDoEndpoint = NewErroringLimiter limiter completeToDoEndpoint;
          (cb, w) = NewCircuitBreaker kit \<lparr> Name = [], Timeout = 0 \<rparr> w;
          completeToDoEndpoint = Gobreaker kit cb completeToDoEndpoint;
          completeToDoEndpoint = TraceServer kit ''CompleteToDo'' completeToDoEndpoint;
          completeToDoEndpoint = (if zipkinTracer then TraceEndpoint kit ''CompleteToDo'' completeToDoEndpoint else completeToDoEndpoint);
          completeToDoEndpoint = addendpoint_LoggingMiddleware kit
                  (log_With logger [KString ''method'', KString ''CompleteToDo'']) completeToDoEndpoint;
          completeToDoEndpoint = addendpoint_InstrumentingMiddleware kit
                  (Histogram_With duration [''method'', ''CompleteToDo'']) completeToDoEndpoint;

          unDoToDoEndpoint = MakeUnDoToDoEndpoint svc;
          (limiter, w) = NewLimiter (Limit 1) 100 w;
          unDoToDoEndpoint = NewErroringLimiter limiter unDoToDoEndpoint;
          (cb, w) = NewCircuitBreaker kit \<lparr> Name = [], Timeout = 0 \<rparr> w;
          unDoToDoEndpoint = Gobreaker kit cb unDoToDoEndpoint;
          unDoToDoEndpoint = TraceServer kit ''UndoToDo'' unDoToDoEndpoint;
          unDoToDoEndpoint = (if zipkinTracer then TraceEndpoint kit ''UndoToDo'' unDoToDoEndpoint else unDoToDoEndpoint);
          unDoToDoEndpoint = addendpoint_LoggingMiddleware kit
                  (log_With logger [KString ''method'', KString ''UnDoToDo'']) unDoToDoEndpoint;
          unDoToDoEndpoint = addendpoint_InstrumentingMiddleware kit
                  (Histogram_With duration [''method'', ''UnDoToDo'']) unDoToDoEndpoint;

          deleteToDoEndpoint = MakeDeleteToDoEndpoint svc;
          (limiter, w) = NewLimiter (Limit 1) 100 w;
          deleteToDoEndpoint = NewErroringLimiter limiter deleteToDoEndpoint;
          (cb, w) = NewCircuitBreaker kit \<lparr> Name = [], Timeout = 0 \<rparr> w;
          deleteToDoEndpoint = Gobreaker kit cb deleteToDoEndpoint;
          deleteToDoEndpoint = TraceServer kit ''DeleteToDo'' deleteToDoEndpoint;
          deleteToDoEndpoint = (if zipkinTracer then TraceEndpoint kit ''DeleteToDo'' deleteToDoEndpoint else deleteToDoEndpoint);
          deleteToDoEndpoint = addendpoint_LoggingMiddleware kit
                  (log_With logger [KString ''method'', KString ''DeleteToDo'']) deleteToDoEndpoint;
          deleteToDoEndpoint = addendpoint_InstrumentingMiddleware kit
                  (Histogram_With duration [''method'', ''DeleteToDo'']) deleteToDoEndpoint;

          getAllToDoEndpoint = MakeGetAllToDoEndpoint svc;
          (limiter, w) = NewLimiter (Limit 1) 100 w;
          getAllToDoEndpoint = NewErroringLimiter limiter getAllToDoEndpoint;
          (cb, w) = NewCircuitBreaker kit \<lparr> Name = [], Timeout = 0 \<rparr> w;
          getAllToDoEndpoint = Gobreaker kit cb getAllToDoEndpoint;
          getAllToDoEndpoint = TraceServer kit ''GetAllToDo'' getAllToDoEndpoint;
          getAllToDoEndpoint = (if zipkinTracer then TraceEndpoint kit ''GetAllToDo'' getAllToDoEndpoint else getAllToDoEndpoint);
          getAllToDoEndpoint = addendpoint_LoggingMiddleware kit
                  (log_With logger [KString ''method'', KString ''GetAllToDo'']) getAllToDoEndpoint;
          getAllToDoEndpoint = addendpoint_InstrumentingMiddleware kit
                  (Histogram_With duration [''method'', ''GetAllToDo'']) getAllToDoEndpoint
      in (\<lparr> SumEndpoint = sumEndpoint,
            ConcatEndpoint = concatEndpoint,
            PingEndpoint = pingEndpoint,
            AddToDoEndpoint = addToDoEndpoint,
            CompleteToDoEndPoint = completeToDoEndpoint,
            UnDoToDoEndpoint = unDoToDoEndpoint,
            DeleteToDoEndpoint = deleteToDoEndpoint,
            GetAllToDoEndpoint = getAllToDoEndpoint \<rparr>, w))"

section \<open>Package addtransport\<close>

definition copyURL :: "URL \<Rightarrow> string \<Rightarrow> URL" where
  "copyURL base path = base\<lparr> Path := path \<rparr>"

definition StatusBadRequest :: int where
  "StatusBadRequest = 400"

definition StatusInternalServerError :: int where
  "StatusInternalServerError = 500"

text \<open>\<open>err2code\<close>: the \<open>switch\<close> compares the error with the three sentinels.\<close>

definition err2code :: "error \<Rightarrow> int" where
  "err2code err =
     (if err = ErrTwoZeroes \<or> err = ErrMaxSizeExceeded \<or> err = ErrIntOverflow
      then StatusBadRequest
      else StatusInternalServerError)"

text \<open>
  An \<open>http.ResponseWriter\<close> is modelled by the calls made on it, in order: the status
  line by \<open>WriteHeader\<close>, a header field by \<open>Header().Set\<close>, bytes of the body by
  \<open>Write\<close>.
\<close>

datatype ResponseWriter_call =
    WriteHeader int
  | Header_Set string string
  | Write string

type_synonym ResponseWriter = "ResponseWriter_call list"

text \<open>
  The values that the transport hands to \<open>json.NewEncoder(w).Encode\<close>: the struct
  \<open>errorWrapper{Error: msg}\<close>, whose JSON form is the error envelope, or a response.
  The marshalling itself is library code: \<open>json\<close> gives the bytes of a value or the
  error of the encoder. \<open>Encode\<close> writes the bytes with one \<open>Write\<close> and writes nothing
  when marshalling fails; a failing \<open>Write\<close> is not modelled.
\<close>

datatype encoded_value =
    errorWrapper string
  | Response "response option"

type_synonym Marshal = "encoded_value \<Rightarrow> error + string"

definition Encode :: "Marshal \<Rightarrow> encoded_value \<Rightarrow> ResponseWriter \<Rightarrow> error option \<times> ResponseWriter" where
  "Encode json v w =
     (case json v of
        Inl err \<Rightarrow> (Some err, w)
      | Inr bytes \<Rightarrow> (None, w @ [Write bytes]))"

definition errorEncoder :: "Marshal \<Rightarrow> error \<Rightarrow> ResponseWriter \<Rightarrow> ResponseWriter" where
  "errorEncoder json err w =
     (let w = w @ [WriteHeader (err2code err)];
          (_, w) = Encode json (errorWrapper (Error err)) w
      in w)"

definition encodeHTTPGenericResponse ::
  "Marshal \<Rightarrow> ResponseWriter \<Rightarrow> response option \<Rightarrow> error option \<times> ResponseWriter" where
  "encodeHTTPGenericResponse json w response =
     (case as_Failer response of
        Some f \<Rightarrow>
          (case Failed f of
             Some err \<Rightarrow> (None, errorEncoder json err w)
           | None \<Rightarrow>
               (let w = w @ [Header_Set ''Content-Type'' ''application/json; charset=utf-8'']
                in Encode json (Response response) w))
      | None \<Rightarrow>
          (let w = w @ [Header_Set ''Content-Type'' ''application/json; charset=utf-8'']
           in Encode json (Response response) w))"

text \<open>
  \<open>NewHTTPClient\<close> builds the endpoints of the client and returns them as a \<open>Set\<close>,
  or the error of \<open>url.Parse\<close>. \<open>zipkinTracer\<close> is the test \<open>zipkinTracer != nil\<close>;
  \<open>strings.HasPrefix(instance, "http")\<close> compares the first four bytes.
\<close>

definition NewHTTPClient ::
  "('x World_scheme, 'b) GoKit \<Rightarrow> string \<Rightarrow> bool \<Rightarrow> 'x World_scheme
     \<Rightarrow> (error + 'x World_scheme Set) \<times> 'x World_scheme" where
  "NewHTTPClient kit instance zipkinTracer w =
     (let instance = (if take 4 instance \<noteq> ''http'' then ''http://'' @ instance else instance)
      in case url_Parse kit instance of
        Inl err \<Rightarrow> (Inl err, w)
      | Inr u \<Rightarrow>
     (let (l, w) = NewLimiter (Every Second) 100 w;
          limiter = NewErroringLimiter l;
          options = [];
          options = (if zipkinTracer then options @ [HTTPClientTrace] else options);

          sumEndpoint = NewClient kit ''POST'' (copyURL u ''/sum'') encodeHTTPGenericRequest
                  decodeHTTPSumResponse (options @ [ClientBefore_ContextToHTTP]);
          sumEndpoint = TraceClient kit ''Sum'' sumEndpoint;
          sumEndpoint = (if zipkinTracer then TraceEndpoint kit ''Sum'' sumEndpoint else sumEndpoint);
          sumEndpoint = limiter sumEndpoint;
          (cb, w) = NewCircuitBreaker kit \<lparr> Name = ''Sum'', Timeout = 30 * Second \<rparr> w;
          sumEndpoint = Gobreaker kit cb sumEndpoint;

          concatEndpoint = NewClient kit ''POST'' (copyURL u ''/concat'') encodeHTTPGenericRequest
                  decodeHTTPConcatResponse (options @ [ClientBefore_ContextToHTTP]);
          concatEndpoint = TraceClient kit ''Concat'' concatEndpoint;
          concatEndpoint = (if zipkinTracer then TraceEndpoint kit ''Concat'' concatEndpoint else concatEndpoint);
          concatEndpoint = limiter concatEndpoint;
          (cb, w) = NewCircuitBreaker kit \<lparr> Name = ''Concat'', Timeout = 10 * Second \<rparr> w;
          concatEndpoint = Gobreaker kit cb concatEndpoint;

          pingEndpoint = NewClient kit ''GET'' (copyURL u ''/ping'') encodeHTTPGenericRequest
                  decodeHTTPPingResponse (options @ [ClientBefore_ContextToHTTP]);
          pingEndpoint = TraceClient kit ''Ping'' pingEndpoint;
          pingEndpoint = (if zipkinTracer then TraceEndpoint kit ''Ping'' pingEndpoint else pingEndpoint);
          pingEndpoint = limiter pingEndpoint;
          (cb, w) = NewCircuitBreaker kit \<lparr> Name = ''Ping'', Timeout = 10 * Second \<rparr> w;
          pingEndpoint = Gobreaker kit cb pingEndpoint;

          addToDoEndpoint = NewClient kit ''POST'' (copyURL u ''/addToDo'') encodeHTTPGenericRequest
                  decodeHTTPAddToDoResponse (options @ [ClientBefore_ContextToHTTP]);
          addToDoEndpoint = TraceClient kit ''AddToDo'' pingEndpoint;
          pingEndpoint = (if zipkinTracer then TraceEndpoint kit ''AddToDo'' pingEndpoint else pingEndpoint);
          addToDoEndpoint = limiter addToDoEndpoint;
          (cb, w) = NewCircuitBreaker kit \<lparr> Name = ''AddToDo'', Timeout = 10 * Second \<rparr> w;
          addToDoEndpoint = Gobreaker kit cb addToDoEndpoint;

          completeToDoEndpoint = NewClient kit ''PUT'' (copyURL u ''/completeToDo'') encodeHTTPGenericRequest
                  decodeHTTPCompleteToDoResponse (options @ [ClientBefore_ContextToHTTP]);
          completeToDoEndpoint = TraceClient kit ''CompleteToDo'' pingEndpoint;
          pingEndpoint = (if zipkinTracer then TraceEndpoint kit ''CompleteToDo'' pingEndpoint else pingEndpoint);
          completeToDoEndpoint = limiter completeToDoEndpoint;
          (cb, w) = NewCircuitBreaker kit \<lparr> Name = ''CompleteToDo'', Timeout = 10 * Second \<rparr> w;
          completeToDoEndpoint = Gobreaker kit cb completeToDoEndpoint;

          unDoToDoEndpoint = NewClient kit ''PUT'' (copyURL u ''/unDoToDo'') encodeHTTPGenericRequest
                  decodeHTTPUnDoToDoResponse (options @ [ClientBefore_ContextToHTTP]);
          unDoToDoEndpoint = TraceClient kit ''UnDoToDo'' pingEndpoint;
          pingEndpoint = (if zipkinTracer then TraceEndpoint kit ''UnDoToDo'' pingEndpoint else pingEndpoint);
          unDoToDoEndpoint = limiter unDoToDoEndpoint;
          (cb, w) = NewCircuitBreaker kit \<lparr> Name = ''UnDoToDo'', Timeout = 10 * Second \<rparr> w;
          unDoToDoEndpoint = Gobreaker kit cb unDoToDoEndpoint;

          deleteToDoEndpoint = NewClient kit ''DELETE'' (copyURL u ''/deleteToDo'') encodeHTTPGenericRequest
                  decodeHTTPDeleteToDoResponse (options @ [ClientBefore_ContextToHTTP]);
          deleteToDoEndpoint = TraceClient kit ''DeleteToDo'' pingEndpoint;
          pingEndpoint = (if zipkinTracer then TraceEndpoint kit ''DeleteToDo'' pingEndpoint else pingEndpoint);
          deleteToDoEndpoint = limiter deleteToDoEndpoint;
          (cb, w) = NewCircuitBreaker kit \<lparr> Name = ''DeleteToDo'', Timeout = 10 * Second \<rparr> w;
          deleteToDoEndpoint = Gobreaker kit cb deleteToDoEndpoint;

          getAllToDoEndpoint = NewClient kit ''GET'' (copyURL u ''/getAllToDo'') encodeHTTPGenericRequest
                  decodeHTTPGetAllToDoResponse (options @ [ClientBefore_ContextToHTTP]);
          getAllToDoEndpoint = TraceClient kit ''GetAllToDo'' pingEndpoint;
          pingEndpoint = (if zipkinTracer then TraceEndpoint kit ''GetAllToDo'' pingEndpoint else pingEndpoint);
          getAllToDoEndpoint = limiter deleteToDoEndpoint;
          (cb, w) = NewCircuitBreaker kit \<lparr> Name = ''GetAllToDo'', Timeout = 10 * Second \<rparr> w;
          getAllToDoEndpoint = Gobreaker kit cb getAllToDoEndpoint
      in (Inr \<lparr> SumEndpoint = sumEndpoint,
                ConcatEndpoint = concatEndpoint,
                PingEndpoint = pingEndpoint,
                AddToDoEndpoint = addToDoEndpoint,
                CompleteToDoEndPoint = completeToDoEndpoint,
                UnDoToDoEndpoint = unDoToDoEndpoint,
                DeleteToDoEndpoint = deleteToDoEndpoint,
                GetAllToDoEndpoint = getAllToDoEndpoint \<rparr>, w)))"

section \<open>Instances for the examples\<close>

text \<open>
  A store whose \<open>Ping\<close> answers with the given error and whose other methods succeed
  without touching the world.
\<close>

definition stubStore :: "error option \<Rightarrow> 'w Store" where
  "stubStore pingErr =
     \<lparr> Store_Ping = (\<lambda>w. (pingErr, w)),
       Store_InsertToDo = (\<lambda>task w. ((''5e0f1c2d3a4b5c6d7e8f9a0b'', None), w)),
       Store_CompleteToDo = (\<lambda>taskID w. ((taskID, None), w)),
       Store_UnDoToDo = (\<lambda>taskID w. ((taskID, None), w)),
       Store_DeleteToDo = (\<lambda>taskID w. ((taskID, None), w)),
       Store_GetAllToDo = (\<lambda>w. (([], None), w)) \<rparr>"

text \<open>
  A kit whose tracing, breaking, logging and instrumenting middlewares hand every call
  on unchanged, whose breakers carry no state, whose transport clients answer with a
  fixed error and whose \<open>url.Parse\<close> accepts every string of the form
  \<open>http://host\<close>.
\<close>

definition plainKit :: "(World, unit) GoKit" where
  "plainKit =
     \<lparr> TraceServer = (\<lambda>name next. next),
       TraceClient = (\<lambda>name next. next),
       TraceEndpoint = (\<lambda>name next. next),
       NewCircuitBreaker = (\<lambda>settings w. ((), w)),
       Gobreaker = (\<lambda>cb next. next),
       addendpoint_LoggingMiddleware = (\<lambda>logger next. next),
       addendpoint_InstrumentingMiddleware = (\<lambda>duration next. next),
       NewClient = (\<lambda>method url enc dec options request w.
                      (Returns (None, Some (OtherError (method @ Path url))), w)),
       url_Parse = (\<lambda>s. if take 7 s = ''http://''
                          then Inr \<lparr> Scheme = ''http'', Host = drop 7 s, Path = [] \<rparr>
                          else Inl (OtherError ''parse error'')) \<rparr>"

definition startWorld :: World where
  "startWorld = \<lparr> now = 1000, limiters = (\<lambda>l. \<lparr> limit = 0, burst = 0, tokens = 0, last = 0 \<rparr>),
                   nlimiters = 0 \<rparr>"

text \<open>
  A marshaller for the examples: the JSON text of \<open>encoding/json\<close> for an
  \<open>errorWrapper\<close> and for a \<open>ConcatResponse\<close> whose strings need no escaping (the field
  \<open>Err\<close> is tagged \<open>json:"-"\<close> and left out), each followed by the newline that
  \<open>Encode\<close> adds.
\<close>

fun plainMarshal :: "encoded_value \<Rightarrow> error + string" where
  \<open>plainMarshal (errorWrapper msg) = Inr (''{"error":"'' @ msg @ ''"}'' @ [CHR 0x0A])\<close>
| \<open>plainMarshal (Response (Some (ConcatResponse v err))) = Inr (''{"v":"'' @ v @ ''"}'' @ [CHR 0x0A])\<close>
| \<open>plainMarshal (Response r) = Inl (OtherError ''json: value not covered by the example'')\<close>

section \<open>The basic service\<close>

lemma sint_intMax: "sint intMax = 2147483647"
  by (simp add: intMax_def)

lemma sint_intMin: "sint intMin = - 2147483648"
  by (simp add: intMin_def intMax_def)

lemma sint_sub_small:
  fixes a b :: goint
  assumes "- (2^62) \<le> sint a" "sint a < 2^62" "- (2^62) \<le> sint b" "sint b < 2^62"
  shows "sint (a - b) = sint a - sint b"
proof -
  have "sint (a - b) = signed_take_bit 63 (sint a - sint b)"
    by (simp add: sint_word_ariths)
  also have "\<dots> = sint a - sint b"
    using assms by (intro signed_take_bit_int_eq_self) simp_all
  finally show ?thesis .
qed

text \<open>
  When both operands lie in the signed 32-bit range, the two tests of \<open>Sum\<close> decide
  exactly whether the sum leaves that range.
\<close>

lemma Sum_operands_in_range:
  assumes a: "- (2^31) \<le> sint a" "sint a < 2^31" and b: "- (2^31) \<le> sint b" "sint b < 2^31"
  shows "basicService_Sum a b =
     (if a = 0 \<and> b = 0 then (0, Some ErrTwoZeroes)
      else if sint a + sint b < - (2^31) \<or> 2^31 \<le> sint a + sint b
        then (0, Some ErrIntOverflow)
      else (a + b, None))"
proof -
  have mx: "sint (intMax - b) = 2147483647 - sint b"
    using b by (subst sint_sub_small) (simp_all add: sint_intMax)
  have mn: "sint (intMin - b) = - 2147483648 - sint b"
    using b by (subst sint_sub_small) (simp_all add: sint_intMin)
  show ?thesis
    using a b unfolding basicService_Sum_def word_sless_alt mx mn
    by auto
qed

text \<open>
  C1. \<open>Sum(a, b)\<close> is to fail with \<open>ErrIntOverflow\<close> whenever \<open>a + b\<close> lies outside the
  signed 32-bit range. The tests of \<open>Sum\<close> look for a sum above \<open>intMax\<close> only when
  \<open>b > 0\<close> and for a sum below \<open>intMin\<close> only when \<open>b < 0\<close>, so an operand that is itself
  out of range passes: \<open>Sum(4294967296, 0)\<close> returns 4294967296 and a nil error, although
  the sum exceeds \<open>intMax\<close> = 2147483647.
\<close>

theorem Sum_misses_operand_out_of_range:
  "basicService_Sum 4294967296 0 = (4294967296, None)
   \<and> sint (4294967296 :: goint) + sint (0 :: goint) > 2147483647"
  by (simp add: basicService_Sum_def intMax_def intMin_def word_sless_alt)

text \<open>
  C2. For all strings \<open>a\<close> and \<open>b\<close>, \<open>Concat(a, b)\<close> returns the error
  \<open>ErrMaxSizeExceeded\<close> (with the empty string) when \<open>len(a) + len(b) > 10\<close>, and
  otherwise the concatenation of \<open>a\<close> and \<open>b\<close> with a nil error.
\<close>

theorem Concat_checks_length:
  "(length a + length b > 10 \<longrightarrow> basicService_Concat a b = ('''', Some ErrMaxSizeExceeded))
   \<and> (length a + length b \<le> 10 \<longrightarrow> basicService_Concat a b = (a @ b, None))"
  by (simp add: basicService_Concat_def maxLen_def)

theorem Concat_checks_length_witness:
  "length ''abcdef'' + length ''ghijk'' > 10
   \<and> basicService_Concat ''abcdef'' ''ghijk'' = ('''', Some ErrMaxSizeExceeded)
   \<and> length ''abcde'' + length ''fghij'' \<le> 10
   \<and> basicService_Concat ''abcde'' ''fghij'' = (''abcdefghij'', None)"
  using Concat_checks_length [of "''abcdef''" "''ghijk''"]
        Concat_checks_length [of "''abcde''" "''fghij''"]
  by simp

text \<open>
  C8. For every store: \<open>Ping\<close> of the basic service returns \<open>"up"\<close> when the store's
  \<open>Ping\<close> returns nil and \<open>"down"\<close> when it returns an error; the error that \<open>Ping\<close>
  itself returns is nil in both cases, and the world is as the store's \<open>Ping\<close> left it.
\<close>

theorem Ping_never_fails:
  "(fst (Store_Ping dbStore w) = None \<longrightarrow> fst (basicService_Ping dbStore w) = (''up'', None))
   \<and> (fst (Store_Ping dbStore w) \<noteq> None \<longrightarrow> fst (basicService_Ping dbStore w) = (''down'', None))
   \<and> snd (fst (basicService_Ping dbStore w)) = None
   \<and> snd (basicService_Ping dbStore w) = snd (Store_Ping dbStore w)"
  by (simp add: basicService_Ping_def split_def Let_def)

theorem Ping_never_fails_witness:
  "fst (Store_Ping (stubStore None) (0::nat)) = None
   \<and> fst (basicService_Ping (stubStore None) (0::nat)) = (''up'', None)
   \<and> fst (Store_Ping (stubStore (Some (OtherError ''no reachable servers''))) (0::nat)) \<noteq> None
   \<and> fst (basicService_Ping (stubStore (Some (OtherError ''no reachable servers''))) (0::nat))
       = (''down'', None)"
  using Ping_never_fails [of "stubStore None" "0::nat"]
        Ping_never_fails [of "stubStore (Some (OtherError ''no reachable servers''))" "0::nat"]
  by (simp add: stubStore_def)

section \<open>The transport\<close>

text \<open>
  C6. \<open>err2code\<close> gives status 400 exactly for the three sentinel errors
  \<open>ErrTwoZeroes\<close>, \<open>ErrMaxSizeExceeded\<close> and \<open>ErrIntOverflow\<close>, and status 500 for every
  other error value, among them the errors of the rate limiter and of an open circuit
  breaker.
\<close>

theorem err2code_classifies:
  "(err2code err = 400 \<longleftrightarrow> err \<in> {ErrTwoZeroes, ErrMaxSizeExceeded, ErrIntOverflow})
   \<and> (err2code err = 500 \<longleftrightarrow> err \<notin> {ErrTwoZeroes, ErrMaxSizeExceeded, ErrIntOverflow})
   \<and> err2code ErrLimited = 500 \<and> err2code ErrOpenState = 500"
  by (simp add: err2code_def StatusBadRequest_def StatusInternalServerError_def)

text \<open>
  C7. For every response handed to \<open>encodeHTTPGenericResponse\<close>: if the response
  implements \<open>Failer\<close> and \<open>Failed()\<close> is not nil, the encoder writes the status code
  that \<open>err2code\<close> gives for that error and then the JSON form of
  \<open>errorWrapper{Error: err.Error()}\<close>, the envelope \<open>{"error": "<message>"}\<close>, writes
  nothing else (the response itself is not encoded) and returns nil. Otherwise it sets
  the content type and JSON-encodes the response as the body, returning the encoder's
  error if there is one.
\<close>

theorem encodeHTTPGenericResponse_envelope:
  "(as_Failer response = Some f \<and> Failed f = Some err
       \<and> json (errorWrapper (Error err)) = Inr envelope
      \<longrightarrow> encodeHTTPGenericResponse json w response
            = (None, w @ [WriteHeader (err2code err), Write envelope]))
   \<and> ((as_Failer response = None \<or> (as_Failer response = Some f \<and> Failed f = None))
      \<longrightarrow> encodeHTTPGenericResponse json w response
            = (case json (Response response) of
                 Inl e \<Rightarrow>
                   (Some e, w @ [Header_Set ''Content-Type'' ''application/json; charset=utf-8''])
               | Inr body \<Rightarrow>
                   (None, w @ [Header_Set ''Content-Type'' ''application/json; charset=utf-8'',
                               Write body])))"
  by (auto simp: encodeHTTPGenericResponse_def errorEncoder_def Encode_def Let_def
           split: option.splits sum.splits)

theorem encodeHTTPGenericResponse_envelope_witness:
  \<open>as_Failer (Some (ConcatResponse [] (Some ErrMaxSizeExceeded)))
       = Some (ConcatResponse [] (Some ErrMaxSizeExceeded))
   \<and> Failed (ConcatResponse [] (Some ErrMaxSizeExceeded)) = Some ErrMaxSizeExceeded
   \<and> encodeHTTPGenericResponse plainMarshal [] (Some (ConcatResponse [] (Some ErrMaxSizeExceeded)))
       = (None, [WriteHeader 400,
                 Write (''{"error":"result exceeds maximum size"}'' @ [CHR 0x0A])])
   \<and> as_Failer (Some (ConcatResponse ''ab'' None)) = Some (ConcatResponse ''ab'' None)
   \<and> Failed (ConcatResponse ''ab'' None) = None
   \<and> encodeHTTPGenericResponse plainMarshal [] (Some (ConcatResponse ''ab'' None))
       = (None, [Header_Set ''Content-Type'' ''application/json; charset=utf-8'',
                 Write (''{"v":"ab"}'' @ [CHR 0x0A])])\<close>
  using encodeHTTPGenericResponse_envelope
          [of "Some (ConcatResponse [] (Some ErrMaxSizeExceeded))"
              "ConcatResponse [] (Some ErrMaxSizeExceeded)" ErrMaxSizeExceeded plainMarshal
              \<open>''{"error":"result exceeds maximum size"}'' @ [CHR 0x0A]\<close> "[]"]
        encodeHTTPGenericResponse_envelope
          [of "Some (ConcatResponse ''ab'' None)" "ConcatResponse ''ab'' None" _ plainMarshal _ "[]"]
  by (simp add: err2code_def StatusBadRequest_def)

section \<open>The endpoints\<close>

text \<open>
  C3. For each of the eight \<open>Make...Endpoint\<close> constructors, every service and every
  request of the operation's own request type, the endpoint returns one non-nil response
  together with a nil error; the response implements \<open>Failer\<close>, and the error that the
  service method returned is the response's \<open>Err\<close> field, which \<open>Failed()\<close> exposes. It
  is never the endpoint's second return value.
\<close>

theorem endpoints_embed_service_error:
  "(\<exists>resp w'. MakeSumEndpoint s (SumRequest a b) w = (Returns (Some resp, None), w')
       \<and> as_Failer (Some resp) = Some resp \<and> Failed resp = snd (fst (Sum s a b w)))
   \<and> (\<exists>resp w'. MakeConcatEndpoint s (ConcatRequest x y) w = (Returns (Some resp, None), w')
       \<and> as_Failer (Some resp) = Some resp \<and> Failed resp = snd (fst (Concat s x y w)))
   \<and> (\<exists>resp w'. MakePingEndpoint s PingRequest w = (Returns (Some resp, None), w')
       \<and> as_Failer (Some resp) = Some resp \<and> Failed resp = snd (fst (Ping s w)))
   \<and> (\<exists>resp w'. MakeAddToDoEndpoint s (AddToDoRequest task) w = (Returns (Some resp, None), w')
       \<and> as_Failer (Some resp) = Some resp \<and> Failed resp = snd (fst (AddToDo s task w)))
   \<and> (\<exists>resp w'. MakeCompleteToDoEndpoint s (CompleteToDoRequest taskID) w
                    = (Returns (Some resp, None), w')
       \<and> as_Failer (Some resp) = Some resp \<and> Failed resp = snd (fst (CompleteToDo s taskID w)))
   \<and> (\<exists>resp w'. MakeUnDoToDoEndpoint s (UnDoToDoRequest taskID) w
                    = (Returns (Some resp, None), w')
       \<and> as_Failer (Some resp) = Some resp \<and> Failed resp = snd (fst (UnDoToDo s taskID w)))
   \<and> (\<exists>resp w'. MakeDeleteToDoEndpoint s (DeleteToDoRequest taskID) w
                    = (Returns (Some resp, None), w')
       \<and> as_Failer (Some resp) = Some resp \<and> Failed resp = snd (fst (DeleteToDo s taskID w)))
   \<and> (\<exists>resp w'. MakeGetAllToDoEndpoint s GetAllToDoRequest w = (Returns (Some resp, None), w')
       \<and> as_Failer (Some resp) = Some resp \<and> Failed resp = snd (fst (GetAllToDo s w)))"
  by (simp add: MakeSumEndpoint_def MakeConcatEndpoint_def MakePingEndpoint_def
      MakeAddToDoEndpoint_def MakeCompleteToDoEndpoint_def MakeUnDoToDoEndpoint_def
      MakeDeleteToDoEndpoint_def MakeGetAllToDoEndpoint_def split_def Let_def)

text \<open>
  C5. The endpoint of \<open>MakePingEndpoint\<close> is to answer with a \<open>PingResponse\<close>, the type
  that \<open>Set.Ping\<close> asserts. It answers with a \<open>ConcatResponse\<close> instead, for every
  service and request, so \<open>Ping\<close> of a \<open>Set\<close> whose \<open>PingEndpoint\<close> is built by
  \<open>MakePingEndpoint\<close> panics at the type assertion \<open>resp.(PingResponse)\<close>.
\<close>

theorem MakePingEndpoint_answers_ConcatResponse:
  "MakePingEndpoint s request w
     = (Returns (Some (ConcatResponse (fst (fst (Ping s w))) (snd (fst (Ping s w)))), None),
        snd (Ping s w))
   \<and> fst (Set_Ping (endpoints\<lparr> PingEndpoint := MakePingEndpoint s \<rparr>) w) = Panics"
  by (simp add: MakePingEndpoint_def Set_Ping_def split_def Let_def)

text \<open>The same on the basic service over a store that is up.\<close>

lemma Set_Ping_basicService_example:
  "MakePingEndpoint (basicService (stubStore None)) PingRequest (0::nat)
     = (Returns (Some (ConcatResponse ''up'' None), None), 0)
   \<and> Set_Ping \<lparr> SumEndpoint = MakeSumEndpoint (basicService (stubStore None)),
                ConcatEndpoint = MakeConcatEndpoint (basicService (stubStore None)),
                PingEndpoint = MakePingEndpoint (basicService (stubStore None)),
                AddToDoEndpoint = MakeAddToDoEndpoint (basicService (stubStore None)),
                CompleteToDoEndPoint = MakeCompleteToDoEndpoint (basicService (stubStore None)),
                UnDoToDoEndpoint = MakeUnDoToDoEndpoint (basicService (stubStore None)),
                DeleteToDoEndpoint = MakeDeleteToDoEndpoint (basicService (stubStore None)),
                GetAllToDoEndpoint = MakeGetAllToDoEndpoint (basicService (stubStore None)) \<rparr>
        (0::nat)
     = (Panics, 0)"
  by (simp add: MakePingEndpoint_def Set_Ping_def split_def Let_def basicService_def
      basicService_Ping_def stubStore_def)

section \<open>The service middlewares\<close>

lemma loggingMiddleware_transparent:
  "fst (Sum (loggingMiddleware logger next) a b w) = fst (Sum next a b w)
   \<and> (\<exists>kvs. snd (Sum (loggingMiddleware logger next) a b w) = logger kvs (snd (Sum next a b w)))
   \<and> fst (Concat (loggingMiddleware logger next) x y w) = fst (Concat next x y w)
   \<and> (\<exists>kvs. snd (Concat (loggingMiddleware logger next) x y w)
               = logger kvs (snd (Concat next x y w)))
   \<and> fst (Ping (loggingMiddleware logger next) w) = fst (Ping next w)
   \<and> (\<exists>kvs. snd (Ping (loggingMiddleware logger next) w) = logger kvs (snd (Ping next w)))
   \<and> fst (AddToDo (loggingMiddleware logger next) task w) = fst (AddToDo next task w)
   \<and> (\<exists>kvs. snd (AddToDo (loggingMiddleware logger next) task w)
               = logger kvs (snd (AddToDo next task w)))
   \<and> fst (CompleteToDo (loggingMiddleware logger next) taskID w) = fst (CompleteToDo next taskID w)
   \<and> (\<exists>kvs. snd (CompleteToDo (loggingMiddleware logger next) taskID w)
               = logger kvs (snd (CompleteToDo next taskID w)))
   \<and> fst (UnDoToDo (loggingMiddleware logger next) taskID w) = fst (UnDoToDo next taskID w)
   \<and> (\<exists>kvs. snd (UnDoToDo (loggingMiddleware logger next) taskID w)
               = logger kvs (snd (UnDoToDo next taskID w)))
   \<and> fst (DeleteToDo (loggingMiddleware logger next) taskID w) = fst (DeleteToDo next taskID w)
   \<and> (\<exists>kvs. snd (DeleteToDo (loggingMiddleware logger next) taskID w)
               = logger kvs (snd (DeleteToDo next taskID w)))
   \<and> fst (GetAllToDo (loggingMiddleware logger next) w) = fst (GetAllToDo next w)
   \<and> (\<exists>kvs. snd (GetAllToDo (loggingMiddleware logger next) w)
               = logger kvs (snd (GetAllToDo next w)))"
  unfolding loggingMiddleware_def by (simp add: split_def Let_def) blast

lemma instrumentingMiddleware_transparent:
  "fst (Sum (instrumentingMiddleware clock ints chars cubToDo getToDo next) a b w)
     = fst (Sum next a b w)
   \<and> (\<exists>n. snd (Sum (instrumentingMiddleware clock ints chars cubToDo getToDo next) a b w)
             = ints n (snd (Sum next a b w)))
   \<and> fst (Concat (instrumentingMiddleware clock ints chars cubToDo getToDo next) x y w)
     = fst (Concat next x y w)
   \<and> (\<exists>n. snd (Concat (instrumentingMiddleware clock ints chars cubToDo getToDo next) x y w)
             = chars n (snd (Concat next x y w)))
   \<and> fst (Ping (instrumentingMiddleware clock ints chars cubToDo getToDo next) w)
     = fst (Ping next w)
   \<and> (\<exists>n. snd (Ping (instrumentingMiddleware clock ints chars cubToDo getToDo next) w)
             = chars n (snd (Ping next w)))
   \<and> fst (AddToDo (instrumentingMiddleware clock ints chars cubToDo getToDo next) task w)
     = fst (AddToDo next task w)
   \<and> (\<exists>lvs d. snd (AddToDo (instrumentingMiddleware clock ints chars cubToDo getToDo next) task w)
             = cubToDo lvs d (snd (AddToDo next task w)))
   \<and> fst (CompleteToDo (instrumentingMiddleware clock ints chars cubToDo getToDo next) taskID w)
     = fst (CompleteToDo next taskID w)
   \<and> (\<exists>lvs d. snd (CompleteToDo (instrumentingMiddleware clock ints chars cubToDo getToDo next)
                      taskID w)
             = cubToDo lvs d (snd (CompleteToDo next taskID w)))
   \<and> fst (UnDoToDo (instrumentingMiddleware clock ints chars cubToDo getToDo next) taskID w)
     = fst (UnDoToDo next taskID w)
   \<and> (\<exists>lvs d. snd (UnDoToDo (instrumentingMiddleware clock ints chars cubToDo getToDo next)
                      taskID w)
             = cubToDo lvs d (snd (UnDoToDo next taskID w)))
   \<and> fst (DeleteToDo (instrumentingMiddleware clock ints chars cubToDo getToDo next) taskID w)
     = fst (DeleteToDo next taskID w)
   \<and> (\<exists>lvs d. snd (DeleteToDo (instrumentingMiddleware clock ints chars cubToDo getToDo next)
                      taskID w)
             = cubToDo lvs d (snd (DeleteToDo next taskID w)))
   \<and> fst (GetAllToDo (instrumentingMiddleware clock ints chars cubToDo getToDo next) w)
     = fst (GetAllToDo next w)
   \<and> (\<exists>lvs d. snd (GetAllToDo (instrumentingMiddleware clock ints chars cubToDo getToDo next) w)
             = getToDo lvs d (snd (GetAllToDo next w)))"
  unfolding instrumentingMiddleware_def by (simp add: split_def Let_def) blast

text \<open>
  C10. For every method of \<open>Service\<close>, every inner service and every input, the value
  and the error returned through \<open>loggingMiddleware\<close> and through
  \<open>instrumentingMiddleware\<close> are those that the inner service returned, and the world
  after the call is the world the inner service left, changed by one call of the logger,
  of a counter or of a histogram.
\<close>

theorem service_middlewares_transparent:
  "(fst (Sum (loggingMiddleware logger next) a b w) = fst (Sum next a b w)
   \<and> (\<exists>kvs. snd (Sum (loggingMiddleware logger next) a b w) = logger kvs (snd (Sum next a b w)))
   \<and> fst (Concat (loggingMiddleware logger next) x y w) = fst (Concat next x y w)
   \<and> (\<exists>kvs. snd (Concat (loggingMiddleware logger next) x y w)
               = logger kvs (snd (Concat next x y w)))
   \<and> fst (Ping (loggingMiddleware logger next) w) = fst (Ping next w)
   \<and> (\<exists>kvs. snd (Ping (loggingMiddleware logger next) w) = logger kvs (snd (Ping next w)))
   \<and> fst (AddToDo (loggingMiddleware logger next) task w) = fst (AddToDo next task w)
   \<and> (\<exists>kvs. snd (AddToDo (loggingMiddleware logger next) task w)
               = logger kvs (snd (AddToDo next task w)))
   \<and> fst (CompleteToDo (loggingMiddleware logger next) taskID w) = fst (CompleteToDo next taskID w)
   \<and> (\<exists>kvs. snd (CompleteToDo (loggingMiddleware logger next) taskID w)
               = logger kvs (snd (CompleteToDo next taskID w)))
   \<and> fst (UnDoToDo (loggingMiddleware logger next) taskID w) = fst (UnDoToDo next taskID w)
   \<and> (\<exists>kvs. snd (UnDoToDo (loggingMiddleware logger next) taskID w)
               = logger kvs (snd (UnDoToDo next taskID w)))
   \<and> fst (DeleteToDo (loggingMiddleware logger next) taskID w) = fst (DeleteToDo next taskID w)
   \<and> (\<exists>kvs. snd (DeleteToDo (loggingMiddleware logger next) taskID w)
               = logger kvs (snd (DeleteToDo next taskID w)))
   \<and> fst (GetAllToDo (loggingMiddleware logger next) w) = fst (GetAllToDo next w)
   \<and> (\<exists>kvs. snd (GetAllToDo (loggingMiddleware logger next) w)
               = logger kvs (snd (GetAllToDo next w))))
   \<and>
   (fst (Sum (instrumentingMiddleware clock ints chars cubToDo getToDo next) a b w)
     = fst (Sum next a b w)
   \<and> (\<exists>n. snd (Sum (instrumentingMiddleware clock ints chars cubToDo getToDo next) a b w)
             = ints n (snd (Sum next a b w)))
   \<and> fst (Concat (instrumentingMiddleware clock ints chars cubToDo getToDo next) x y w)
     = fst (Concat next x y w)
   \<and> (\<exists>n. snd (Concat (instrumentingMiddleware clock ints chars cubToDo getToDo next) x y w)
             = chars n (snd (Concat next x y w)))
   \<and> fst (Ping (instrumentingMiddleware clock ints chars cubToDo getToDo next) w)
     = fst (Ping next w)
   \<and> (\<exists>n. snd (Ping (instrumentingMiddleware clock ints chars cubToDo getToDo next) w)
             = chars n (snd (Ping next w)))
   \<and> fst (AddToDo (instrumentingMiddleware clock ints chars cubToDo getToDo next) task w)
     = fst (AddToDo next task w)
   \<and> (\<exists>lvs d. snd (AddToDo (instrumentingMiddleware clock ints chars cubToDo getToDo next) task w)
             = cubToDo lvs d (snd (AddToDo next task w)))
   \<and> fst (CompleteToDo (instrumentingMiddleware clock ints chars cubToDo getToDo next) taskID w)
     = fst (CompleteToDo next taskID w)
   \<and> (\<exists>lvs d. snd (CompleteToDo (instrumentingMiddleware clock ints chars cubToDo getToDo next)
                      taskID w)
             = cubToDo lvs d (snd (CompleteToDo next taskID w)))
   \<and> fst (UnDoToDo (instrumentingMiddleware clock ints chars cubToDo getToDo next) taskID w)
     = fst (UnDoToDo next taskID w)
   \<and> (\<exists>lvs d. snd (UnDoToDo (instrumentingMiddleware clock ints chars cubToDo getToDo next)
                      taskID w)
             = cubToDo lvs d (snd (UnDoToDo next taskID w)))
   \<and> fst (DeleteToDo (instrumentingMiddleware clock ints chars cubToDo getToDo next) taskID w)
     = fst (DeleteToDo next taskID w)
   \<and> (\<exists>lvs d. snd (DeleteToDo (instrumentingMiddleware clock ints chars cubToDo getToDo next)
                      taskID w)
             = cubToDo lvs d (snd (DeleteToDo next taskID w)))
   \<and> fst (GetAllToDo (instrumentingMiddleware clock ints chars cubToDo getToDo next) w)
     = fst (GetAllToDo next w)
   \<and> (\<exists>lvs d. snd (GetAllToDo (instrumentingMiddleware clock ints chars cubToDo getToDo next) w)
             = getToDo lvs d (snd (GetAllToDo next w))))"
  using loggingMiddleware_transparent [of logger "next" a b w x y task taskID]
        instrumentingMiddleware_transparent
          [of clock ints chars cubToDo getToDo "next" a b w x y task taskID]
  by (rule conjI)

section \<open>The server wiring and the rate limiter\<close>

lemma New_SumEndpoint:
  "SumEndpoint (fst (New kit svc logger duration zipkinTracer w0))
     = addendpoint_InstrumentingMiddleware kit (Histogram_With duration [''method'', ''Sum''])
        (addendpoint_LoggingMiddleware kit (log_With logger [KString ''method'', KString ''Sum''])
          ((if zipkinTracer then TraceEndpoint kit ''Sum'' else (\<lambda>e. e))
            (TraceServer kit ''Sum''
              (Gobreaker kit
                 (fst (NewCircuitBreaker kit \<lparr> Name = [], Timeout = 0 \<rparr>
                        (snd (NewLimiter (Every Second) 1 w0))))
                 (NewErroringLimiter (fst (NewLimiter (Every Second) 1 w0))
                    (MakeSumEndpoint svc))))))"
  unfolding New_def by (simp add: Let_def split_def)

lemma NewLimiter_state:
  "limiters (snd (NewLimiter r b w0)) (fst (NewLimiter r b w0))
     = \<lparr> limit = r, burst = b, tokens = of_int b, last = 0 \<rparr>"
  by (simp add: NewLimiter_def)

lemma first_call_admitted:
  assumes "limiters w l = \<lparr> limit = Every Second, burst = 1, tokens = 1, last = 0 \<rparr>"
  shows "NewErroringLimiter l next request w = next request (snd (Allow l w))"
    and "limiters (snd (Allow l w)) l
           = \<lparr> limit = Every Second, burst = 1, tokens = 0, last = now w \<rparr>"
  using assms
  by (simp_all add: NewErroringLimiter_def Allow_def Limiter_Allow_def Let_def split_def
        Every_def Second_def min_def)

lemma second_call_refused:
  assumes "limiters w2 l = \<lparr> limit = Every Second, burst = 1, tokens = 0, last = t1 \<rparr>"
    and "t1 \<le> now w2" "now w2 < t1 + Second"
  shows "NewErroringLimiter l next request w2 = (Returns (None, Some ErrLimited), w2)"
  using assms
  by (simp add: NewErroringLimiter_def Allow_def Limiter_Allow_def Let_def split_def
        Every_def Second_def min_def fun_upd_idem_iff)

text \<open>
  C9. In \<open>New\<close> the endpoint of \<open>MakeSumEndpoint\<close> is wrapped first, innermost, by the
  erroring limiter over a limiter of one token per second and burst 1, which starts
  with a full bucket. Of two calls that reach this limiter less than a second apart, with
  no other call of it in between, the first is admitted and handed to the wrapped
  endpoint, and the second returns at once with a nil response and the error
  \<open>ErrLimited\<close>: whatever the wrapped endpoint is, it is not called and the world stays
  as it was, so nothing waits for a token.
\<close>

theorem Sum_endpoint_rate_limited:
  assumes fresh: "limiters w l = \<lparr> limit = Every Second, burst = 1, tokens = 1, last = 0 \<rparr>"
    and untouched: "limiters w2 l = limiters (snd (Allow l w)) l"
    and back_to_back: "now w \<le> now w2" "now w2 < now w + Second"
  shows "SumEndpoint (fst (New kit svc logger duration zipkinTracer w0))
       = addendpoint_InstrumentingMiddleware kit (Histogram_With duration [''method'', ''Sum''])
          (addendpoint_LoggingMiddleware kit
             (log_With logger [KString ''method'', KString ''Sum''])
            ((if zipkinTracer then TraceEndpoint kit ''Sum'' else (\<lambda>e. e))
              (TraceServer kit ''Sum''
                (Gobreaker kit
                   (fst (NewCircuitBreaker kit \<lparr> Name = [], Timeout = 0 \<rparr>
                          (snd (NewLimiter (Every Second) 1 w0))))
                   (NewErroringLimiter (fst (NewLimiter (Every Second) 1 w0))
                      (MakeSumEndpoint svc))))))
     \<and> limiters (snd (NewLimiter (Every Second) 1 w0)) (fst (NewLimiter (Every Second) 1 w0))
         = \<lparr> limit = Every Second, burst = 1, tokens = 1, last = 0 \<rparr>
     \<and> NewErroringLimiter l next request w = next request (snd (Allow l w))
     \<and> NewErroringLimiter l next' request' w2 = (Returns (None, Some ErrLimited), w2)"
proof -
  have state: "limiters w2 l = \<lparr> limit = Every Second, burst = 1, tokens = 0, last = now w \<rparr>"
    using untouched first_call_admitted(2) [OF fresh] by simp
  have made: "limiters (snd (NewLimiter (Every Second) 1 w0)) (fst (NewLimiter (Every Second) 1 w0))
         = \<lparr> limit = Every Second, burst = 1, tokens = 1, last = 0 \<rparr>"
    using NewLimiter_state [of "Every Second" 1 w0] by simp
  show ?thesis
    using New_SumEndpoint [of kit svc logger duration zipkinTracer w0] made
      first_call_admitted(1) [OF fresh, of "next" request]
      second_call_refused [OF state back_to_back, of next' request']
    by (intro conjI)
qed

text \<open>
  An example run: the server endpoints over the basic service with a kit of transparent
  middlewares. The first \<open>Sum\<close> call is answered, a second one half a second later is
  refused.
\<close>

theorem Sum_endpoint_rate_limited_witness:
  "(let svc = basicService (stubStore None);
        (endpoints, w) = New plainKit svc (\<lambda>kvs w. w) (\<lambda>lvs d w. w) False startWorld;
        w2 = (snd (Allow 0 w))\<lparr> now := now w + 500000000 \<rparr>
    in limiters w 0 = \<lparr> limit = Every Second, burst = 1, tokens = 1, last = 0 \<rparr>
     \<and> limiters w2 0 = limiters (snd (Allow 0 w)) 0
     \<and> now w \<le> now w2 \<and> now w2 < now w + Second
     \<and> SumEndpoint endpoints (SumRequest 1 2) w
         = (Returns (Some (SumResponse 3 None), None), snd (Allow 0 w))
     \<and> SumEndpoint endpoints (SumRequest 4 5) w2 = (Returns (None, Some ErrLimited), w2))"
proof -
  define svc :: "World Service" where "svc = basicService (stubStore None)"
  define made where "made = New plainKit svc (\<lambda>kvs w. w) (\<lambda>lvs d w. w) False startWorld"
  define w where "w = snd made"
  define w2 where "w2 = (snd (Allow 0 w))\<lparr> now := now w + 500000000 \<rparr>"
  have eps: "SumEndpoint (fst made) = NewErroringLimiter 0 (MakeSumEndpoint svc)"
    unfolding made_def New_def
    by (simp add: Let_def split_def plainKit_def NewLimiter_def startWorld_def)
  have fresh: "limiters w 0 = \<lparr> limit = Every Second, burst = 1, tokens = 1, last = 0 \<rparr>"
    unfolding w_def made_def New_def
    by (simp add: Let_def split_def plainKit_def NewLimiter_def startWorld_def)
  have untouched: "limiters w2 0 = limiters (snd (Allow 0 w)) 0"
    by (simp add: w2_def)
  have t1: "now w \<le> now w2" and t2: "now w2 < now w + Second"
    by (simp_all add: w2_def Allow_def split_def Second_def)
  note inst = Sum_endpoint_rate_limited [OF fresh untouched t1 t2,
      of plainKit svc "\<lambda>kvs w. w" "\<lambda>lvs d w. w" False startWorld
         "MakeSumEndpoint svc" "SumRequest 1 2" "MakeSumEndpoint svc" "SumRequest 4 5"]
  have first: "SumEndpoint (fst made) (SumRequest 1 2) w
         = (Returns (Some (SumResponse 3 None), None), snd (Allow 0 w))"
    using inst unfolding eps
    by (simp add: MakeSumEndpoint_def svc_def basicService_def basicService_Sum_def
        intMax_def intMin_def word_sless_alt)
  have second: "SumEndpoint (fst made) (SumRequest 4 5) w2 = (Returns (None, Some ErrLimited), w2)"
    using inst unfolding eps by simp
  show ?thesis
    using fresh untouched t1 t2 first second
    unfolding Let_def split_def svc_def [symmetric] made_def [symmetric] w_def [symmetric]
      w2_def [symmetric]
    by simp
qed

section \<open>The client wiring\<close>

text \<open>
  The endpoints that \<open>NewHTTPClient\<close> returns for the five to-do operations, written
  over \<open>ping\<close>, the fully decorated Ping endpoint as the Ping block leaves it.
\<close>

lemma NewHTTPClient_wraps_ping:
  assumes parse:
    "url_Parse kit (if take 4 instance \<noteq> ''http'' then ''http://'' @ instance else instance) = Inr u"
  shows "\<exists>endpoints w' ping cbP cbA cbC cbU cbD cbG.
     NewHTTPClient kit instance zipkinTracer w = (Inr endpoints, w')
     \<and> (let limiter = NewErroringLimiter (nlimiters w);
             zipkin = (\<lambda>name e. if zipkinTracer then TraceEndpoint kit name e else e);
             options = (if zipkinTracer then [HTTPClientTrace] else []) @ [ClientBefore_ContextToHTTP]
         in ping = Gobreaker kit cbP (limiter (zipkin ''Ping'' (TraceClient kit ''Ping''
                     (NewClient kit ''GET'' (copyURL u ''/ping'') encodeHTTPGenericRequest
                        decodeHTTPPingResponse options))))
          \<and> AddToDoEndpoint endpoints
              = Gobreaker kit cbA (limiter (TraceClient kit ''AddToDo'' ping))
          \<and> CompleteToDoEndPoint endpoints
              = Gobreaker kit cbC (limiter (TraceClient kit ''CompleteToDo''
                  (zipkin ''AddToDo'' ping)))
          \<and> UnDoToDoEndpoint endpoints
              = Gobreaker kit cbU (limiter (TraceClient kit ''UnDoToDo''
                  (zipkin ''CompleteToDo'' (zipkin ''AddToDo'' ping))))
          \<and> DeleteToDoEndpoint endpoints
              = Gobreaker kit cbD (limiter (TraceClient kit ''DeleteToDo''
                  (zipkin ''UnDoToDo'' (zipkin ''CompleteToDo'' (zipkin ''AddToDo'' ping)))))
          \<and> GetAllToDoEndpoint endpoints
              = Gobreaker kit cbG (limiter (DeleteToDoEndpoint endpoints))
          \<and> PingEndpoint endpoints
              = zipkin ''GetAllToDo'' (zipkin ''DeleteToDo'' (zipkin ''UnDoToDo''
                  (zipkin ''CompleteToDo'' (zipkin ''AddToDo'' ping)))))"
proof (cases zipkinTracer)
  case True
  then show ?thesis
    unfolding NewHTTPClient_def using parse
    apply (simp add: Let_def split_def NewLimiter_def)
    apply (intro exI conjI; rule refl)
    done
next
  case False
  then show ?thesis
    unfolding NewHTTPClient_def using parse
    apply (simp add: Let_def split_def NewLimiter_def)
    apply (intro exI conjI; rule refl)
    done
qed

text \<open>
  The transport clients that \<open>NewHTTPClient\<close> makes for the five to-do paths are dead
  values: with any other endpoints in their place the result is the same.
\<close>

lemma NewHTTPClient_own_clients_unused:
  "NewHTTPClient
      (kit\<lparr> NewClient := (\<lambda>method url.
                if Path url \<in> {''/addToDo'', ''/completeToDo'', ''/unDoToDo'', ''/deleteToDo'',
                                ''/getAllToDo''}
                then other method url else NewClient kit method url) \<rparr>)
      instance zipkinTracer w
   = NewHTTPClient kit instance zipkinTracer w"
proof (cases zipkinTracer)
  case True
  then show ?thesis
    unfolding NewHTTPClient_def
    by (simp add: Let_def split_def copyURL_def split: sum.splits)
next
  case False
  then show ?thesis
    unfolding NewHTTPClient_def
    by (simp add: Let_def split_def copyURL_def split: sum.splits)
qed

text \<open>
  C4. In \<open>NewHTTPClient\<close> the blocks for AddToDo, CompleteToDo, UnDoToDo, DeleteToDo
  and GetAllToDo apply the client tracing middleware to the Ping endpoint variable and,
  with a zipkin tracer, assign the zipkin-traced endpoint back to the Ping variable,
  where the blocks for Sum, Concat and Ping use the operation's own variable. So each of
  the five returned endpoints is a decoration of the Ping endpoint (GetAllToDo of the
  returned DeleteToDo endpoint, which is one), the returned Ping endpoint carries the
  zipkin decorations of the five, and none of the returned endpoints calls the HTTP
  transport client made for one of the five operations: replacing those clients changes
  nothing in the result.
\<close>

theorem NewHTTPClient_todo_endpoints_miswired:
  assumes parse:
    "url_Parse kit (if take 4 instance \<noteq> ''http'' then ''http://'' @ instance else instance) = Inr u"
  shows "(\<exists>endpoints w' ping cbP cbA cbC cbU cbD cbG.
     NewHTTPClient kit instance zipkinTracer w = (Inr endpoints, w')
     \<and> (let limiter = NewErroringLimiter (nlimiters w);
             zipkin = (\<lambda>name e. if zipkinTracer then TraceEndpoint kit name e else e);
             options = (if zipkinTracer then [HTTPClientTrace] else []) @ [ClientBefore_ContextToHTTP]
         in ping = Gobreaker kit cbP (limiter (zipkin ''Ping'' (TraceClient kit ''Ping''
                     (NewClient kit ''GET'' (copyURL u ''/ping'') encodeHTTPGenericRequest
                        decodeHTTPPingResponse options))))
          \<and> AddToDoEndpoint endpoints
              = Gobreaker kit cbA (limiter (TraceClient kit ''AddToDo'' ping))
          \<and> CompleteToDoEndPoint endpoints
              = Gobreaker kit cbC (limiter (TraceClient kit ''CompleteToDo''
                  (zipkin ''AddToDo'' ping)))
          \<and> UnDoToDoEndpoint endpoints
              = Gobreaker kit cbU (limiter (TraceClient kit ''UnDoToDo''
                  (zipkin ''CompleteToDo'' (zipkin ''AddToDo'' ping))))
          \<and> DeleteToDoEndpoint endpoints
              = Gobreaker kit cbD (limiter (TraceClient kit ''DeleteToDo''
                  (zipkin ''UnDoToDo'' (zipkin ''CompleteToDo'' (zipkin ''AddToDo'' ping)))))
          \<and> GetAllToDoEndpoint endpoints
              = Gobreaker kit cbG (limiter (DeleteToDoEndpoint endpoints))
          \<and> PingEndpoint endpoints
              = zipkin ''GetAllToDo'' (zipkin ''DeleteToDo'' (zipkin ''UnDoToDo''
                  (zipkin ''CompleteToDo'' (zipkin ''AddToDo'' ping))))))
   \<and> NewHTTPClient
        (kit\<lparr> NewClient := (\<lambda>method url.
                  if Path url \<in> {''/addToDo'', ''/completeToDo'', ''/unDoToDo'', ''/deleteToDo'',
                                  ''/getAllToDo''}
                  then other method url else NewClient kit method url) \<rparr>)
        instance zipkinTracer w
      = NewHTTPClient kit instance zipkinTracer w"
  by (intro conjI NewHTTPClient_wraps_ping [OF parse] NewHTTPClient_own_clients_unused)

text \<open>
  An example run with the kit of transparent middlewares, whose transport clients
  answer with their method and path: the AddToDo endpoint of the client is the Ping
  endpoint decorated once more, and a call of it is answered by the client of
  \<open>GET /ping\<close>.
\<close>

theorem NewHTTPClient_todo_endpoints_miswired_witness:
  "url_Parse plainKit (if take 4 ''localhost:8081'' \<noteq> ''http''
                        then ''http://'' @ ''localhost:8081'' else ''localhost:8081'')
     = Inr \<lparr> Scheme = ''http'', Host = ''localhost:8081'', Path = [] \<rparr>
   \<and> (\<exists>endpoints w' cbA.
        NewHTTPClient plainKit ''localhost:8081'' False startWorld = (Inr endpoints, w')
        \<and> AddToDoEndpoint endpoints
            = Gobreaker plainKit cbA (NewErroringLimiter 0
                (TraceClient plainKit ''AddToDo'' (PingEndpoint endpoints)))
        \<and> fst (AddToDoEndpoint endpoints
                 (AddToDoRequest \<lparr> ID = [], Task = ''buy milk'', Status = False \<rparr>) w')
            = Returns (None, Some (OtherError ''GET/ping'')))"
proof -
  have parse: "url_Parse plainKit (if take 4 ''localhost:8081'' \<noteq> ''http''
                        then ''http://'' @ ''localhost:8081'' else ''localhost:8081'')
     = Inr \<lparr> Scheme = ''http'', Host = ''localhost:8081'', Path = [] \<rparr>"
    by (simp add: plainKit_def)
  have "\<exists>endpoints w' cbA.
        NewHTTPClient plainKit ''localhost:8081'' False startWorld = (Inr endpoints, w')
        \<and> AddToDoEndpoint endpoints
            = Gobreaker plainKit cbA (NewErroringLimiter 0
                (TraceClient plainKit ''AddToDo'' (PingEndpoint endpoints)))"
    using NewHTTPClient_todo_endpoints_miswired [OF parse, of False startWorld, THEN conjunct1]
    by (auto simp: Let_def startWorld_def)
  then obtain endpoints w' cbA where
    made: "NewHTTPClient plainKit ''localhost:8081'' False startWorld = (Inr endpoints, w')"
    and add: "AddToDoEndpoint endpoints
            = Gobreaker plainKit cbA (NewErroringLimiter 0
                (TraceClient plainKit ''AddToDo'' (PingEndpoint endpoints)))"
    by blast
  have w': "w' = startWorld\<lparr> limiters := (limiters startWorld)
                    (0 := \<lparr> limit = Every Second, burst = 100, tokens = 100, last = 0 \<rparr>),
                  nlimiters := 1 \<rparr>"
    and eps: "AddToDoEndpoint endpoints
       = NewErroringLimiter 0 (NewErroringLimiter 0
           (\<lambda>request w. (Returns (None, Some (OtherError ''GET/ping'')), w)))"
    using made unfolding NewHTTPClient_def
    by (auto simp: Let_def split_def plainKit_def NewLimiter_def startWorld_def copyURL_def)
  have call: "fst (AddToDoEndpoint endpoints
                 (AddToDoRequest \<lparr> ID = [], Task = ''buy milk'', Status = False \<rparr>) w')
            = Returns (None, Some (OtherError ''GET/ping''))"
    unfolding eps w'
    by (simp add: NewErroringLimiter_def Allow_def Limiter_Allow_def Let_def split_def
        Every_def Second_def min_def startWorld_def)
  show ?thesis
    using parse made add call by blast
qed

end
